theory Spec2Isabelle
  imports Complex_Main
begin

section \<open>Python values and operations used by the two scripts\<close>

text \<open>
  The repository holds two command-line scripts, \<^verbatim>\<open>calculate_wpm.py\<close> (the WPM analyzer)
  and \<^verbatim>\<open>generate_text.py\<close> (the script generator). Both are embedded below function by
  function.

  Numbers. A Python \<^verbatim>\<open>int\<close> is an \<^typ>\<open>int\<close>. A Python \<^verbatim>\<open>float\<close> is idealised as an
  exact real number: the model has no rounding error, no infinities and no NaN. Every
  operation keeps Python's typing (\<^verbatim>\<open>int\<close> or \<^verbatim>\<open>float\<close>) and Python's exceptions:
  true division by zero raises \<^verbatim>\<open>ZeroDivisionError\<close>, \<^verbatim>\<open>int(x)\<close> truncates toward zero,
  \<^verbatim>\<open>round(x, n)\<close> rounds half to even and leaves an \<^verbatim>\<open>int\<close> unchanged. (Python rounds
  the binary value of the float, so at an exact decimal tie, and at the limits of the
  binary format, the program can differ from this model by one unit in the last place.)
\<close>

datatype py_error = SystemExit int | ZeroDivisionError | KeyError

datatype pynum = PInt int | PFloat real

fun num_value :: "pynum \<Rightarrow> real" where
  "num_value (PInt i) = of_int i"
| "num_value (PFloat x) = x"

text \<open>\<^verbatim>\<open>a / b\<close>: the result is always a float; a zero divisor raises.\<close>

definition py_truediv :: "pynum \<Rightarrow> pynum \<Rightarrow> py_error + real" where
  "py_truediv a b =
     (if num_value b = 0 then Inl ZeroDivisionError else Inr (num_value a / num_value b))"

text \<open>\<^verbatim>\<open>a + b\<close> and \<^verbatim>\<open>a * b\<close>: an int only when both operands are ints.\<close>

fun py_add :: "pynum \<Rightarrow> pynum \<Rightarrow> pynum" where
  "py_add (PInt a) (PInt b) = PInt (a + b)"
| "py_add a b = PFloat (num_value a + num_value b)"

fun py_mul :: "pynum \<Rightarrow> pynum \<Rightarrow> pynum" where
  "py_mul (PInt a) (PInt b) = PInt (a * b)"
| "py_mul a b = PFloat (num_value a * num_value b)"

text \<open>\<^verbatim>\<open>sum(xs)\<close> starts from the int \<^verbatim>\<open>0\<close> and adds from the left.\<close>

definition py_sum :: "pynum list \<Rightarrow> pynum" where
  "py_sum xs = foldl py_add (PInt 0) xs"

text \<open>\<^verbatim>\<open>int(x)\<close> on a number: truncation toward zero.\<close>

definition py_int :: "pynum \<Rightarrow> int" where
  "py_int x = (if 0 \<le> num_value x then \<lfloor>num_value x\<rfloor> else \<lceil>num_value x\<rceil>)"

definition round_half_even :: "real \<Rightarrow> int" where
  "round_half_even x =
     (let f = \<lfloor>x\<rfloor>; d = x - of_int f
      in if d < 1 / 2 then f else if 1 / 2 < d then f + 1 else if even f then f else f + 1)"

definition float_round :: "real \<Rightarrow> nat \<Rightarrow> real" where
  "float_round x ndigits = of_int (round_half_even (x * 10 ^ ndigits)) / 10 ^ ndigits"

text \<open>\<^verbatim>\<open>round(x, ndigits)\<close> with \<^verbatim>\<open>ndigits >= 0\<close>.\<close>

fun py_round :: "pynum \<Rightarrow> nat \<Rightarrow> pynum" where
  "py_round (PInt i) ndigits = PInt i"
| "py_round (PFloat x) ndigits = PFloat (float_round x ndigits)"

text \<open>\<^verbatim>\<open>max(a, b)\<close> on ints is \<^const>\<open>max\<close>.\<close>

subsection \<open>Strings\<close>

text \<open>
  Texts are 8-bit strings. The whitespace of \<^verbatim>\<open>str.split()\<close> and \<^verbatim>\<open>str.strip()\<close> is the
  ASCII part of \<^verbatim>\<open>str.isspace\<close>: tab, line feed, vertical tab, form feed, carriage
  return, the separators 0x1C to 0x1F, and space.
\<close>

definition is_space :: "char \<Rightarrow> bool" where
  "is_space c = (let n = (of_char c :: nat) in (9 \<le> n \<and> n \<le> 13) \<or> (28 \<le> n \<and> n \<le> 32))"

text \<open>\<^verbatim>\<open>s.split()\<close>: the maximal runs of non-whitespace characters, in order.\<close>

fun split_from :: "string \<Rightarrow> string \<Rightarrow> string list" where
  "split_from cur [] = (if cur = [] then [] else [cur])"
| "split_from cur (c # cs) =
     (if is_space c then (if cur = [] then split_from [] cs else cur # split_from [] cs)
      else split_from (cur @ [c]) cs)"

definition py_split :: "string \<Rightarrow> string list" where
  "py_split s = split_from [] s"

definition py_strip :: "string \<Rightarrow> string" where
  "py_strip s = rev (dropWhile is_space (rev (dropWhile is_space s)))"

text \<open>\<^verbatim>\<open>str(n)\<close> for a natural number, and for an int.\<close>

fun str_nat :: "nat \<Rightarrow> string" where
  "str_nat n =
     (if n < 10 then [''0123456789'' ! n]
      else str_nat (n div 10) @ [''0123456789'' ! (n mod 10)])"

declare str_nat.simps [simp del]

definition str_int :: "int \<Rightarrow> string" where
  "str_int i = (if i < 0 then CHR ''-'' # str_nat (nat (- i)) else str_nat (nat i))"

text \<open>
  \<^verbatim>\<open>f"{i:02d}"\<close> for \<^verbatim>\<open>i >= 0\<close>: the decimal digits, filled with zeros on the left up to
  width two. A number of three or more digits keeps all its digits.
\<close>

definition fmt_02d :: "nat \<Rightarrow> string" where
  "fmt_02d i = replicate (2 - length (str_nat i)) CHR ''0'' @ str_nat i"

text \<open>The truth value of an optional string: \<^verbatim>\<open>None\<close> and \<^verbatim>\<open>""\<close> are false.\<close>

fun truthy_str :: "string option \<Rightarrow> bool" where
  "truthy_str None = False"
| "truthy_str (Some s) = (s \<noteq> [])"

subsection \<open>The process's world: files, standard output, remote calls\<close>

text \<open>
  A path is the list of its components; \<^verbatim>\<open>p / name\<close> appends one component. Remote
  calls and file operations are taken to succeed: their own failures (network,
  permissions) are outside the model.

  A printed line whose f-string renders a number is recorded as \<open>Fmt\<close>: the template with
  its format specifications, and the values; the decimal rendering of floats is not
  modelled. File contents are the text written, or the JSON value given to
  \<^verbatim>\<open>json.dump\<close>.
\<close>

type_synonym path = "string list"

fun path_str :: "path \<Rightarrow> string" where
  "path_str [] = []"
| "path_str [c] = c"
| "path_str (c # cs) = c @ ''/'' @ path_str cs"

datatype json = JNum pynum | JStr string | JArr "json list" | JObj "(string \<times> json) list"

datatype content = Text string | Json json

datatype out_line = Line string | Fmt string "pynum list" | Listing path

datatype api_call = Upload string | GenerateContent string

record world =
  files :: "path \<rightharpoonup> content"
  dirs :: "path set"
  stdout :: "out_line list"
  api_calls :: "api_call list"

definition print_line :: "string \<Rightarrow> world \<Rightarrow> world" where
  "print_line s w = w\<lparr>stdout := stdout w @ [Line s]\<rparr>"

definition print_fmt :: "string \<Rightarrow> pynum list \<Rightarrow> world \<Rightarrow> world" where
  "print_fmt t vs w = w\<lparr>stdout := stdout w @ [Fmt t vs]\<rparr>"

definition remote :: "api_call \<Rightarrow> world \<Rightarrow> world" where
  "remote c w = w\<lparr>api_calls := api_calls w @ [c]\<rparr>"

text \<open>\<^verbatim>\<open>open(p, "w")\<close> followed by one write: the file holds exactly the new content.\<close>

definition write_file :: "path \<Rightarrow> content \<Rightarrow> world \<Rightarrow> world" where
  "write_file p c w = w\<lparr>files := (files w)(p \<mapsto> c)\<rparr>"

text \<open>\<^verbatim>\<open>p.mkdir(exist_ok=True)\<close>: an existing directory is accepted as it is.\<close>

definition mkdir_exist_ok :: "path \<Rightarrow> world \<Rightarrow> world" where
  "mkdir_exist_ok p w = w\<lparr>dirs := insert p (dirs w)\<rparr>"

text \<open>\<^verbatim>\<open>p.mkdir(parents=True, exist_ok=True)\<close>: missing ancestors are created too.\<close>

definition mkdir_parents_exist_ok :: "path \<Rightarrow> world \<Rightarrow> world" where
  "mkdir_parents_exist_ok p w =
     w\<lparr>dirs := dirs w \<union> set (map (\<lambda>n. take n p) [1 ..< Suc (length p)])\<rparr>"

text \<open>
  The exit status of the process: the argument of \<^verbatim>\<open>sys.exit\<close>, and 1 for an exception
  that nothing catches (the interpreter prints the traceback and exits with 1).
\<close>

fun exit_code :: "py_error \<Rightarrow> int" where
  "exit_code (SystemExit n) = n"
| "exit_code ZeroDivisionError = 1"
| "exit_code KeyError = 1"

section \<open>calculate\_wpm.py\<close>

text \<open>
  An MP3 file of the input directory, with what the two external services return for
  it: \<^verbatim>\<open>len(AudioSegment.from_file(p))\<close> in milliseconds, and the \<^verbatim>\<open>response.text\<close> of the
  transcription request.
\<close>

record audio_file =
  af_name :: string
  af_len_ms :: nat
  af_response :: string

definition get_audio_duration_seconds :: "audio_file \<Rightarrow> py_error + real" where
  "get_audio_duration_seconds file_path =
     py_truediv (PInt (int (af_len_ms file_path))) (PFloat 1000)"

definition transcribe_audio :: "audio_file \<Rightarrow> world \<Rightarrow> string \<times> world" where
  "transcribe_audio file_path w =
     (let w1 = print_line (''  Uploading '' @ af_name file_path @ ''...'') w;
          w2 = remote (Upload (af_name file_path)) w1;
          w3 = print_line ''  Transcribing...'' w2;
          w4 = remote (GenerateContent
                 (''Transcribe this audio exactly as spoken. '' @
                  ''Return ONLY the transcription text, nothing else.'')) w3
      in (py_strip (af_response file_path), w4))"

definition count_words :: "string \<Rightarrow> int" where
  "count_words text = int (length (py_split text))"

definition calculate_wpm :: "int \<Rightarrow> real \<Rightarrow> py_error + pynum" where
  "calculate_wpm word_count duration_seconds =
     (case py_truediv (PFloat duration_seconds) (PFloat 60) of
        Inl e \<Rightarrow> Inl e
      | Inr duration_minutes \<Rightarrow>
          if duration_minutes = 0 then Inr (PInt 0)
          else (case py_truediv (PInt word_count) (PFloat duration_minutes) of
                  Inl e \<Rightarrow> Inl e
                | Inr q \<Rightarrow> Inr (PFloat q)))"

text \<open>One entry of \<^verbatim>\<open>results\<close>.\<close>

record file_result =
  fr_file :: string
  fr_duration_seconds :: real
  fr_word_count :: int
  fr_wpm :: pynum
  fr_transcript :: string

text \<open>The body of the loop over \<^verbatim>\<open>mp3_files\<close> (lines 115 to 136).\<close>

definition process_file :: "audio_file \<Rightarrow> world \<Rightarrow> (py_error + file_result) \<times> world" where
  "process_file mp3_file w =
     (let w1 = print_line (''Processing: '' @ af_name mp3_file) w
      in case get_audio_duration_seconds mp3_file of
           Inl e \<Rightarrow> (Inl e, w1)
         | Inr duration \<Rightarrow>
            (case py_truediv (PFloat duration) (PInt 60) of
               Inl e \<Rightarrow> (Inl e, w1)
             | Inr shown_minutes \<Rightarrow>
                (let w2 = print_fmt ''  Duration: {:.1f} seconds ({:.2f} minutes)''
                            [PFloat duration, PFloat shown_minutes] w1;
                     (transcript, w3) = transcribe_audio mp3_file w2;
                     word_count = count_words transcript;
                     w4 = print_fmt ''  Word count: {}'' [PInt word_count] w3
                 in case calculate_wpm word_count duration of
                      Inl e \<Rightarrow> (Inl e, w4)
                    | Inr wpm \<Rightarrow>
                       (let w5 = print_fmt ''  WPM: {:.1f}\<newline>'' [wpm] w4
                        in (Inr \<lparr>fr_file = af_name mp3_file,
                                  fr_duration_seconds = float_round duration 2,
                                  fr_word_count = word_count,
                                  fr_wpm = py_round wpm 1,
                                  fr_transcript = transcript\<rparr>, w5)))))"

fun process_files ::
  "audio_file list \<Rightarrow> file_result list \<Rightarrow> world \<Rightarrow> (py_error + file_result list) \<times> world" where
  "process_files [] results w = (Inr results, w)"
| "process_files (mp3_file # rest) results w =
     (case process_file mp3_file w of
        (Inl e, w') \<Rightarrow> (Inl e, w')
      | (Inr r, w') \<Rightarrow> process_files rest (results @ [r]) w')"

text \<open>The aggregates of lines 139 to 141.\<close>

definition results_average_wpm :: "file_result list \<Rightarrow> py_error + real" where
  "results_average_wpm results = py_truediv (py_sum (map fr_wpm results)) (PInt (int (length results)))"

definition results_total_words :: "file_result list \<Rightarrow> int" where
  "results_total_words results = sum_list (map fr_word_count results)"

definition results_total_duration :: "file_result list \<Rightarrow> pynum" where
  "results_total_duration results = py_sum (map (\<lambda>r. PFloat (fr_duration_seconds r)) results)"

definition file_json :: "file_result \<Rightarrow> json" where
  "file_json r =
     JObj [(''file'', JStr (fr_file r)),
           (''duration_seconds'', JNum (PFloat (fr_duration_seconds r))),
           (''word_count'', JNum (PInt (fr_word_count r))),
           (''wpm'', JNum (fr_wpm r)),
           (''transcript'', JStr (fr_transcript r))]"

text \<open>The \<^verbatim>\<open>output\<close> dictionary of lines 144 to 153.\<close>

definition report :: "string \<Rightarrow> file_result list \<Rightarrow> real \<Rightarrow> json" where
  "report now results avg =
     JObj [(''analysis_date'', JStr now),
           (''summary'',
              JObj [(''files_analyzed'', JNum (PInt (int (length results)))),
                    (''total_words'', JNum (PInt (results_total_words results))),
                    (''total_duration_seconds'', JNum (py_round (results_total_duration results) 2)),
                    (''average_wpm'', JNum (py_round (PFloat avg) 1))]),
           (''files'', JArr (map file_json results))]"

text \<open>
  What the analyzer reads from its environment: \<^verbatim>\<open>GEMINI_API_KEY\<close> (after the optional
  \<^verbatim>\<open>.env\<close> file is loaded), the directory of the script, the MP3 files that
  \<^verbatim>\<open>glob("*.mp3")\<close> lists in \<^verbatim>\<open>wpm-measure\<close> (\<open>None\<close> when the directory does not exist),
  and the clock.
\<close>

record analyzer_input =
  ai_api_key :: "string option"
  ai_script_dir :: path
  ai_mp3_files :: "audio_file list option"
  ai_now :: string

definition calculate_wpm_main :: "analyzer_input \<Rightarrow> world \<Rightarrow> (py_error + unit) \<times> world" where
  "calculate_wpm_main inp w =
     (let script_dir = ai_script_dir inp;
          wpm_measure_dir = script_dir @ [''wpm-measure''];
          user_context_dir = script_dir @ [''user-context''];
          output_file = user_context_dir @ [''wpm-analysis.json'']
      in if \<not> truthy_str (ai_api_key inp) then
           (Inl (SystemExit 1),
            print_line ''Get your API key from: https://aistudio.google.com/apikey''
              (print_line ''Error: GEMINI_API_KEY environment variable not set.'' w))
         else
           (case ai_mp3_files inp of
              None \<Rightarrow>
                (Inl (SystemExit 1),
                 print_line (''Error: Directory not found: '' @ path_str wpm_measure_dir) w)
            | Some mp3_files \<Rightarrow>
                if mp3_files = [] then
                  (Inl (SystemExit 1),
                   print_line (''Error: No MP3 files found in '' @ path_str wpm_measure_dir) w)
                else
                  (let w1 = print_fmt ''Found {} MP3 file(s) to analyze.\<newline>''
                              [PInt (int (length mp3_files))] w
                   in case process_files mp3_files [] w1 of
                        (Inl e, w2) \<Rightarrow> (Inl e, w2)
                      | (Inr results, w2) \<Rightarrow>
                         (case results_average_wpm results of
                            Inl e \<Rightarrow> (Inl e, w2)
                          | Inr avg \<Rightarrow>
                             (let w3 = mkdir_exist_ok user_context_dir w2;
                                  w4 = write_file output_file
                                         (Json (report (ai_now inp) results avg)) w3;
                                  w5 = print_line (replicate 50 CHR ''='') w4;
                                  w6 = print_line ''SUMMARY'' w5;
                                  w7 = print_line (replicate 50 CHR ''='') w6;
                                  w8 = print_fmt ''Files analyzed: {}''
                                         [PInt (int (length results))] w7;
                                  w9 = print_fmt ''Total words: {}''
                                         [PInt (results_total_words results)] w8
                              in case py_truediv (results_total_duration results) (PInt 60) of
                                   Inl e \<Rightarrow> (Inl e, w9)
                                 | Inr shown_minutes \<Rightarrow>
                                    (let w10 = print_fmt
                                                 ''Total duration: {:.1f} seconds ({:.2f} minutes)''
                                                 [results_total_duration results,
                                                  PFloat shown_minutes] w9;
                                         w11 = print_fmt ''Average WPM: {:.1f}'' [PFloat avg] w10;
                                         w12 = print_line
                                                 (''\<newline>Results saved to: '' @
                                                  path_str output_file) w11
                                     in (Inr (), w12)))))))"

section \<open>generate\_text.py\<close>

text \<open>
  The parsed command line. \<^verbatim>\<open>argparse\<close> has already converted the values:
  \<^verbatim>\<open>--duration\<close> and \<^verbatim>\<open>--chunk-duration\<close> are floats, \<^verbatim>\<open>--chunks\<close> and \<^verbatim>\<open>--wpm\<close> are
  ints; an option that was not given holds its default (\<open>None\<close>, \<open>1\<close> for \<^verbatim>\<open>--chunks\<close>,
  the empty string for \<^verbatim>\<open>--topic\<close>). No value is validated.
\<close>

record args =
  arg_duration :: real
  arg_style :: "string option"
  arg_chunks :: int
  arg_chunk_duration :: "real option"
  arg_topic :: string
  arg_wpm :: "int option"

text \<open>
  The keys of \<^verbatim>\<open>config.json\<close> that the script reads; each may be missing. The file is
  taken to be valid JSON with values of the documented types.
\<close>

record config =
  cfg_wpm :: "int option"
  cfg_default_style :: "string option"
  cfg_available_styles :: "string list option"
  cfg_output_directory :: "string option"

text \<open>\<^verbatim>\<open>d.get(key, default)\<close> on an optional entry.\<close>

fun get_or :: "'a option \<Rightarrow> 'a \<Rightarrow> 'a" where
  "get_or None d = d"
| "get_or (Some v) d = v"

definition load_config :: "path \<Rightarrow> config option \<Rightarrow> world \<Rightarrow> (py_error + config) \<times> world" where
  "load_config config_path file w =
     (case file of
        None \<Rightarrow>
          (Inl (SystemExit 1),
           print_line (''Error: Config file not found: '' @ path_str config_path) w)
      | Some c \<Rightarrow> (Inr c, w))"

definition calculate_word_count :: "real \<Rightarrow> int \<Rightarrow> int" where
  "calculate_word_count duration_minutes wpm =
     py_int (py_mul (PFloat duration_minutes) (PInt wpm))"

definition style_prompts :: "(string \<times> string) list" where
  "style_prompts =
     [(''conversational'',
         ''Write in a natural, conversational tone as if speaking to a friend. '' @
         ''Include occasional filler words, natural pauses, and casual language. '' @
         ''Topics can range widely - anecdotes, observations, musings.''),
      (''narrative'',
         ''Write engaging narrative prose suitable for an audiobook. '' @
         ''Include descriptive passages, varied sentence structures, '' @
         ''and compelling storytelling. Can be fiction or creative non-fiction.''),
      (''technical'',
         ''Write clear technical explanations or tutorials. '' @
         ''Include precise terminology but maintain readability for narration. '' @
         ''Topics can include technology, science, programming, or engineering.''),
      (''news_anchor'',
         ''Write in a professional news broadcast style. '' @
         ''Clear, authoritative tone with good pacing for broadcast delivery. '' @
         ''Include varied news topics - current events, features, human interest.''),
      (''storytelling'',
         ''Write immersive short stories or story excerpts. '' @
         ''Include dialogue, scene descriptions, and emotional moments. '' @
         ''Vary between action, reflection, and character development.''),
      (''educational'',
         ''Write informative educational content suitable for a documentary. '' @
         ''Include interesting facts, clear explanations, and engaging delivery. '' @
         ''Topics can span history, nature, culture, science.''),
      (''podcast'',
         ''Write in an engaging podcast monologue style. '' @
         ''Include rhetorical questions, audience engagement phrases, '' @
         ''and natural transitions between topics.'')]"

text \<open>
  \<^verbatim>\<open>style_prompts.get(style, style_prompts["conversational"])\<close>: the default is looked up
  first, by subscript, which raises \<^verbatim>\<open>KeyError\<close> on a missing key.
\<close>

definition get_style_prompt :: "string \<Rightarrow> py_error + string" where
  "get_style_prompt style =
     (case map_of style_prompts ''conversational'' of
        None \<Rightarrow> Inl KeyError
      | Some fallback \<Rightarrow> Inr (get_or (map_of style_prompts style) fallback))"

text \<open>
  The remote model is a function from the prompt to the \<^verbatim>\<open>response.text\<close> it answers
  with. The prompt is the f-string of lines 118 to 136.
\<close>

definition chunk_context :: "int \<Rightarrow> int \<Rightarrow> string" where
  "chunk_context chunk_number total_chunks =
     (if 1 < total_chunks then
        ''This is part '' @ str_int chunk_number @ '' of '' @ str_int total_chunks @ ''. '' @
        (if chunk_number = 1 then ''Start fresh with an engaging opening. ''
         else if chunk_number = total_chunks then
           ''This is the final part - provide a satisfying conclusion. ''
         else ''Continue naturally from a previous section. '')
      else [])"

definition topic_context :: "string \<Rightarrow> string" where
  "topic_context topic_hint =
     (if topic_hint \<noteq> [] then ''Focus on this topic area: '' @ topic_hint @ ''. '' else [])"

definition prompt_text :: "int \<Rightarrow> string \<Rightarrow> string \<Rightarrow> string \<Rightarrow> string" where
  "prompt_text word_count style_prompt chunk_ctx topic_ctx =
     ''Generate text for voice recording/narration.\<newline>'' @
     ''\<newline>'' @
     ''Target word count: approximately '' @ str_int word_count @
     '' words (very important - aim for this count)\<newline>'' @
     ''\<newline>'' @
     ''Style requirements:\<newline>'' @
     style_prompt @ ''\<newline>'' @
     ''\<newline>'' @
     chunk_ctx @ topic_ctx @ ''\<newline>'' @
     ''\<newline>'' @
     ''Requirements:\<newline>'' @
     ''- Generate ONLY the text to be read aloud\<newline>'' @
     ''- No headers, titles, or metadata\<newline>'' @
     ''- No stage directions or notes\<newline>'' @
     ''- Natural flow suitable for continuous narration\<newline>'' @
     ''- Varied sentence lengths for natural rhythm\<newline>'' @
     ''- Avoid tongue-twisters or overly complex words\<newline>'' @
     ''- Include natural breathing points (commas, periods)\<newline>'' @
     ''\<newline>'' @
     ''Generate the text now:''"

definition generate_text_chunk ::
  "(string \<Rightarrow> string) \<Rightarrow> int \<Rightarrow> string \<Rightarrow> int \<Rightarrow> int \<Rightarrow> string \<Rightarrow> world
     \<Rightarrow> (py_error + string) \<times> world" where
  "generate_text_chunk client word_count style chunk_number total_chunks topic_hint w =
     (case get_style_prompt style of
        Inl e \<Rightarrow> (Inl e, w)
      | Inr style_prompt \<Rightarrow>
          (let prompt = prompt_text word_count style_prompt
                          (chunk_context chunk_number total_chunks) (topic_context topic_hint)
           in (Inr (py_strip (client prompt)), remote (GenerateContent prompt) w)))"

text \<open>One entry of \<^verbatim>\<open>generated_texts\<close>.\<close>

record text_data =
  td_text :: string
  td_target_words :: int
  td_actual_words :: int

text \<open>\<^verbatim>\<open>enumerate(xs, 1)\<close> is \<^term>\<open>List.enumerate 1 xs\<close>.\<close>

text \<open>The \<^verbatim>\<open>for\<close> loop of lines 160 to 168, one step and the whole loop.\<close>

definition save_text :: "path \<Rightarrow> nat \<Rightarrow> world \<Rightarrow> nat \<times> text_data \<Rightarrow> world" where
  "save_text session_dir len_texts w entry =
     (let i = fst entry; text_data = snd entry;
          filename = (if len_texts = 1 then ''script.txt''
                      else ''chunk_'' @ fmt_02d i @ ''.txt'');
          filepath = session_dir @ [filename]
      in write_file filepath (Text (td_text text_data)) w)"

definition save_texts :: "path \<Rightarrow> text_data list \<Rightarrow> world \<Rightarrow> world" where
  "save_texts session_dir texts w =
     foldl (save_text session_dir (length texts)) w (List.enumerate 1 texts)"

text \<open>Collecting a comprehension whose items may raise: the first exception wins.\<close>

fun values_of :: "(py_error + 'a) list \<Rightarrow> py_error + 'a list" where
  "values_of [] = Inr []"
| "values_of (x # xs) =
     (case x of
        Inl e \<Rightarrow> Inl e
      | Inr v \<Rightarrow> (case values_of xs of Inl e \<Rightarrow> Inl e | Inr vs \<Rightarrow> Inr (v # vs)))"

text \<open>One item of the \<^verbatim>\<open>"chunks"\<close> list of the metadata (lines 177 to 182).\<close>

definition chunk_json :: "nat \<Rightarrow> int \<Rightarrow> nat \<times> text_data \<Rightarrow> py_error + json" where
  "chunk_json len_texts wpm entry =
     (let i = fst entry; t = snd entry;
          actual = int (length (py_split (td_text t)))
      in case py_truediv (PInt actual) (PInt wpm) of
           Inl e \<Rightarrow> Inl e
         | Inr minutes \<Rightarrow>
             Inr (JObj
               [(''file'', JStr (if 1 < len_texts then ''chunk_'' @ fmt_02d i @ ''.txt''
                                 else ''script.txt'')),
                (''target_word_count'', JNum (PInt (td_target_words t))),
                (''actual_word_count'', JNum (PInt actual)),
                (''estimated_duration_minutes'', JNum (py_round (PFloat minutes) 2))]))"

definition metadata ::
  "string \<Rightarrow> text_data list \<Rightarrow> string \<Rightarrow> real \<Rightarrow> int \<Rightarrow> py_error + json" where
  "metadata generated_at texts style total_duration wpm =
     (case values_of (map (chunk_json (length texts) wpm) (List.enumerate 1 texts)) of
        Inl e \<Rightarrow> Inl e
      | Inr chunks \<Rightarrow>
          (let total = sum_list (map (\<lambda>t. int (length (py_split (td_text t)))) texts)
           in case py_truediv (PInt total) (PInt wpm) of
                Inl e \<Rightarrow> Inl e
              | Inr minutes \<Rightarrow>
                  Inr (JObj
                    [(''generated_at'', JStr generated_at),
                     (''style'', JStr style),
                     (''target_duration_minutes'', JNum (PFloat total_duration)),
                     (''wpm_used'', JNum (PInt wpm)),
                     (''chunks'', JArr chunks),
                     (''totals'',
                        JObj [(''total_words'', JNum (PInt total)),
                              (''estimated_total_duration_minutes'',
                                 JNum (py_round (PFloat minutes) 2))])])))"

text \<open>
  \<^verbatim>\<open>save_output\<close> reads the clock twice: \<open>timestamp\<close> is the result of
  \<^verbatim>\<open>datetime.now().strftime("%Y%m%d_%H%M%S")\<close>, \<open>generated_at\<close> that of
  \<^verbatim>\<open>datetime.now().isoformat()\<close>.
\<close>

definition save_output ::
  "string \<Rightarrow> string \<Rightarrow> path \<Rightarrow> text_data list \<Rightarrow> string \<Rightarrow> real \<Rightarrow> int \<Rightarrow> world
     \<Rightarrow> (py_error + path) \<times> world" where
  "save_output timestamp generated_at output_dir texts style total_duration wpm w =
     (let session_dir = output_dir @ [''session_'' @ timestamp];
          w1 = mkdir_parents_exist_ok session_dir w;
          w2 = save_texts session_dir texts w1
      in case metadata generated_at texts style total_duration wpm of
           Inl e \<Rightarrow> (Inl e, w2)
         | Inr md \<Rightarrow>
             (let metadata_path = session_dir @ [''metadata.json''];
                  w3 = write_file metadata_path (Json md) w2
              in (Inr session_dir, w3)))"

text \<open>
  What the generator reads from its environment: the parsed arguments, the directory of
  the script, the content of \<^verbatim>\<open>config.json\<close> (\<open>None\<close> when the file does not exist),
  \<^verbatim>\<open>GEMINI_API_KEY\<close>, the remote model, and the two clock readings of \<^verbatim>\<open>save_output\<close>.
\<close>

record generator_input =
  gi_args :: args
  gi_script_dir :: path
  gi_config_file :: "config option"
  gi_api_key :: "string option"
  gi_client :: "string \<Rightarrow> string"
  gi_timestamp :: string
  gi_generated_at :: string

text \<open>\<^verbatim>\<open>args.wpm or config.get("wpm", 150)\<close>: \<open>None\<close> and \<open>0\<close> are false.\<close>

definition wpm_used :: "args \<Rightarrow> config \<Rightarrow> int" where
  "wpm_used a c =
     (case arg_wpm a of
        Some n \<Rightarrow> if n \<noteq> 0 then n else get_or (cfg_wpm c) 150
      | None \<Rightarrow> get_or (cfg_wpm c) 150)"

text \<open>\<^verbatim>\<open>args.style or config.get("default_style", "conversational")\<close>.\<close>

definition style_used :: "args \<Rightarrow> config \<Rightarrow> string" where
  "style_used a c =
     (if truthy_str (arg_style a) then get_or (arg_style a) []
      else get_or (cfg_default_style c) ''conversational'')"

text \<open>The truth value of \<^verbatim>\<open>args.chunk_duration\<close>: \<open>None\<close> and \<open>0.0\<close> are false.\<close>

fun truthy_float :: "real option \<Rightarrow> bool" where
  "truthy_float None = False"
| "truthy_float (Some x) = (x \<noteq> 0)"

text \<open>
  Lines 255 to 261: the number of chunks, then the duration of one chunk. The result is
  the pair \<^verbatim>\<open>(num_chunks, chunk_duration)\<close>.
\<close>

definition plan_chunks :: "args \<Rightarrow> py_error + int \<times> real" where
  "plan_chunks a =
     (case (if truthy_float (arg_chunk_duration a) then
              (case py_truediv (PFloat (arg_duration a))
                      (PFloat (get_or (arg_chunk_duration a) 0)) of
                 Inl e \<Rightarrow> Inl e
               | Inr q \<Rightarrow> Inr (max 1 (py_int (PFloat q))))
            else Inr (arg_chunks a)) of
        Inl e \<Rightarrow> Inl e
      | Inr num_chunks \<Rightarrow>
          (case py_truediv (PFloat (arg_duration a)) (PInt num_chunks) of
             Inl e \<Rightarrow> Inl e
           | Inr chunk_duration \<Rightarrow> Inr (num_chunks, chunk_duration)))"

text \<open>Lines 273 to 287: the printed plan.\<close>

definition print_plan :: "args \<Rightarrow> string \<Rightarrow> int \<Rightarrow> int \<Rightarrow> real \<Rightarrow> world \<Rightarrow> world" where
  "print_plan a style wpm num_chunks chunk_duration w =
     (let w1 = print_line (replicate 60 CHR ''='') w;
          w2 = print_line ''TEXT GENERATION PLAN'' w1;
          w3 = print_line (replicate 60 CHR ''='') w2;
          w4 = print_fmt ''Total duration: {} minutes'' [PFloat (arg_duration a)] w3;
          w5 = print_line (''Style: '' @ style) w4;
          w6 = print_fmt ''WPM: {}'' [PInt wpm] w5;
          w7 = print_fmt ''Chunks: {}'' [PInt num_chunks] w6;
          w8 = print_fmt ''Duration per chunk: {:.1f} minutes'' [PFloat chunk_duration] w7;
          w9 = print_fmt ''Words per chunk: ~{}''
                 [PInt (calculate_word_count chunk_duration wpm)] w8;
          w10 = print_fmt ''Total words: ~{}''
                  [PInt (calculate_word_count (arg_duration a) wpm)] w9;
          w11 = (if arg_topic a \<noteq> [] then print_line (''Topic hint: '' @ arg_topic a) w10
                 else w10);
          w12 = print_line (replicate 60 CHR ''='') w11
      in print_line [] w12)"

text \<open>
  Lines 290 to 311: the loop over \<^verbatim>\<open>range(1, num_chunks + 1)\<close>, which is the list
  \<^term>\<open>[1..num_chunks]\<close>; \<open>generated_texts\<close> is the list built so far.
\<close>

fun generate_chunks ::
  "(string \<Rightarrow> string) \<Rightarrow> real \<Rightarrow> int \<Rightarrow> string \<Rightarrow> int \<Rightarrow> string \<Rightarrow> int list
     \<Rightarrow> text_data list \<Rightarrow> world \<Rightarrow> (py_error + text_data list) \<times> world" where
  "generate_chunks client chunk_duration wpm style num_chunks topic [] generated_texts w =
     (Inr generated_texts, w)"
| "generate_chunks client chunk_duration wpm style num_chunks topic (i # rest) generated_texts w =
     (let target_words = calculate_word_count chunk_duration wpm;
          w1 = print_fmt ''Generating chunk {}/{} (~{} words)...''
                 [PInt i, PInt num_chunks, PInt target_words] w
      in case generate_text_chunk client target_words style i num_chunks topic w1 of
           (Inl e, w2) \<Rightarrow> (Inl e, w2)
         | (Inr text, w2) \<Rightarrow>
             (let actual_words = int (length (py_split text));
                  w3 = print_fmt ''  Generated {} words'' [PInt actual_words] w2
              in generate_chunks client chunk_duration wpm style num_chunks topic rest
                   (generated_texts @
                      [\<lparr>td_text = text, td_target_words = target_words,
                        td_actual_words = actual_words\<rparr>]) w3))"

definition generate_text_main :: "generator_input \<Rightarrow> world \<Rightarrow> (py_error + unit) \<times> world" where
  "generate_text_main inp w =
     (let a = gi_args inp; script_dir = gi_script_dir inp
      in case load_config (script_dir @ [''config.json'']) (gi_config_file inp) w of
           (Inl e, w1) \<Rightarrow> (Inl e, w1)
         | (Inr config, w1) \<Rightarrow>
            (let wpm = wpm_used a config;
                 style = style_used a config;
                 w2 = (if style \<notin> set (get_or (cfg_available_styles config) [style]) then
                         print_line (''Warning: Style '' @ [CHR 0x27] @ style @ [CHR 0x27] @
                                     '' not in available styles. Using anyway.'') w1
                       else w1)
             in case plan_chunks a of
                  Inl e \<Rightarrow> (Inl e, w2)
                | Inr (num_chunks, chunk_duration) \<Rightarrow>
                   if \<not> truthy_str (gi_api_key inp) then
                     (Inl (SystemExit 1),
                      print_line ''Get your API key from: https://aistudio.google.com/apikey''
                        (print_line ''Error: GEMINI_API_KEY environment variable not set.'' w2))
                   else
                     (let w3 = print_plan a style wpm num_chunks chunk_duration w2
                      in case generate_chunks (gi_client inp) chunk_duration wpm style num_chunks
                                (arg_topic a) [1..num_chunks] [] w3 of
                           (Inl e, w4) \<Rightarrow> (Inl e, w4)
                         | (Inr generated_texts, w4) \<Rightarrow>
                            (let output_dir =
                                   script_dir @ [get_or (cfg_output_directory config) ''output'']
                             in case save_output (gi_timestamp inp) (gi_generated_at inp)
                                       output_dir generated_texts style (arg_duration a) wpm w4 of
                                  (Inl e, w5) \<Rightarrow> (Inl e, w5)
                                | (Inr session_dir, w5) \<Rightarrow>
                                   (let total_actual =
                                          sum_list (map td_actual_words generated_texts);
                                        w6 = print_line [] w5;
                                        w7 = print_line (replicate 60 CHR ''='') w6;
                                        w8 = print_line ''GENERATION COMPLETE'' w7;
                                        w9 = print_line (replicate 60 CHR ''='') w8;
                                        w10 = print_fmt ''Total words generated: {}''
                                                [PInt total_actual] w9
                                    in case py_truediv (PInt total_actual) (PInt wpm) of
                                         Inl e \<Rightarrow> (Inl e, w10)
                                       | Inr minutes \<Rightarrow>
                                          (let w11 = print_fmt
                                                       ''Estimated reading time: {:.1f} minutes''
                                                       [PFloat minutes] w10;
                                               w12 = print_line (''Output saved to: '' @
                                                        path_str session_dir) w11;
                                               w13 = print_line [] w12;
                                               w14 = print_line ''Files created:'' w13
                                           in (Inr (),
                                               w14\<lparr>stdout := stdout w14 @
                                                      [Listing session_dir]\<rparr>)))))))"

section \<open>Reading the outputs; the claims' own formulas; example inputs\<close>









definition empty_world :: world where
  "empty_world = \<lparr>files = Map.empty, dirs = {}, stdout = [], api_calls = []\<rparr>"

text \<open>
  Three recordings: 10 words in 6 seconds, and twice 15 words in 7 seconds.
\<close>

definition example_mp3_files :: "audio_file list" where
  "example_mp3_files =
     [\<lparr>af_name = ''a.mp3'', af_len_ms = 6000,
       af_response = ''one two three four five six seven eight nine ten\<newline>''\<rparr>,
      \<lparr>af_name = ''b.mp3'', af_len_ms = 7000,
       af_response = ''a b c d e f g h i j k l m n o''\<rparr>,
      \<lparr>af_name = ''c.mp3'', af_len_ms = 7000,
       af_response = ''a b c d e f g h i j k l m n o''\<rparr>]"

definition example_analyzer_input :: analyzer_input where
  "example_analyzer_input =
     \<lparr>ai_api_key = Some ''key'', ai_script_dir = [''repo''],
      ai_mp3_files = Some example_mp3_files, ai_now = ''2026-01-01T00:00:00''\<rparr>"

text \<open>
  The name of the file that the loop of \<^verbatim>\<open>save_output\<close> opens for entry \<open>i\<close> of
  \<open>len_texts\<close> texts (lines 161 to 164).
\<close>

definition text_filename :: "nat \<Rightarrow> nat \<Rightarrow> string" where
  "text_filename len_texts i =
     (if len_texts = 1 then ''script.txt'' else ''chunk_'' @ fmt_02d i @ ''.txt'')"

text \<open>Reading a decimal numeral back; it shows that distinct numbers get distinct names.\<close>

definition digit_value :: "char \<Rightarrow> nat" where
  "digit_value c = of_char c - 48"

definition parse_nat :: "string \<Rightarrow> nat" where
  "parse_nat s = foldl (\<lambda>a c. 10 * a + digit_value c) 0 s"

text \<open>
  A run of the generator: \<^verbatim>\<open>--duration 10 --chunks 2 --wpm 150\<close>, a configuration file
  without keys, and a remote model that answers every prompt with the same four words.
\<close>

definition example_args :: args where
  "example_args =
     \<lparr>arg_duration = 10, arg_style = None, arg_chunks = 2, arg_chunk_duration = None,
      arg_topic = [], arg_wpm = Some 150\<rparr>"

definition example_config :: config where
  "example_config =
     \<lparr>cfg_wpm = None, cfg_default_style = None, cfg_available_styles = None,
      cfg_output_directory = None\<rparr>"

definition example_generator_input :: generator_input where
  "example_generator_input =
     \<lparr>gi_args = example_args, gi_script_dir = [''repo''], gi_config_file = Some example_config,
      gi_api_key = None, gi_client = (\<lambda>prompt. ''  four words of text\<newline>''),
      gi_timestamp = ''20260101_120000'', gi_generated_at = ''2026-01-01T12:00:00''\<rparr>"


definition example_texts :: "text_data list" where
  "example_texts = [\<lparr>td_text = ''the new take'', td_target_words = 3, td_actual_words = 3\<rparr>]"

definition example_two_texts :: "text_data list" where
  "example_two_texts =
     [\<lparr>td_text = ''first part'', td_target_words = 2, td_actual_words = 2\<rparr>,
      \<lparr>td_text = ''second part'', td_target_words = 2, td_actual_words = 2\<rparr>]"

section \<open>Properties of calculate\_wpm.py\<close>

lemma calculate_wpm_value:
  "calculate_wpm W D = Inr (if D = 0 then PInt 0 else PFloat (of_int W / (D / 60)))"
  by (simp add: calculate_wpm_def py_truediv_def)

text \<open>
  Claim C3. For every non-negative word count \<open>W\<close> and non-negative duration \<open>D\<close> in
  seconds, \<^verbatim>\<open>calculate_wpm\<close> raises nothing and returns the float \<open>W / (D / 60)\<close> when
  \<open>D > 0\<close>, and the int \<open>0\<close> when \<open>D = 0\<close>.
\<close>

theorem calculate_wpm_formula:
  assumes "0 \<le> W" and "0 \<le> D"
  shows "(0 < D \<longrightarrow> calculate_wpm W D = Inr (PFloat (of_int W / (D / 60))))
       \<and> (D = 0 \<longrightarrow> calculate_wpm W D = Inr (PInt 0))"
  by (simp add: calculate_wpm_value)

theorem calculate_wpm_formula_witness:
  "(0::int) \<le> 150 \<and> (0::real) \<le> 60 \<and> (0::real) < 60
     \<and> calculate_wpm 150 60 = Inr (PFloat 150)
     \<and> calculate_wpm 150 0 = Inr (PInt 0)"
  using calculate_wpm_formula [of 150 60] calculate_wpm_formula [of 150 0] by simp


















section \<open>Properties of generate\_text.py\<close>

subsection \<open>Planning the chunks\<close>

lemma max_1_py_int: "max 1 (py_int (PFloat q)) = max 1 \<lfloor>q\<rfloor>"
proof (cases "0 \<le> q")
  case True
  then show ?thesis by (simp add: py_int_def)
next
  case False
  then have "\<lceil>q\<rceil> \<le> 0" and "\<lfloor>q\<rfloor> \<le> 0"
    by (simp_all add: ceiling_le_iff floor_le_iff)
  with False show ?thesis by (simp add: py_int_def)
qed

lemma plan_chunks_truthy:
  assumes "arg_chunk_duration a = Some cd" and "cd \<noteq> 0"
  shows "plan_chunks a =
           Inr (max 1 \<lfloor>arg_duration a / cd\<rfloor>,
                arg_duration a / of_int (max 1 \<lfloor>arg_duration a / cd\<rfloor>))"
proof -
  have "max 1 \<lfloor>arg_duration a / cd\<rfloor> \<noteq> 0" by simp
  then show ?thesis
    using assms by (simp add: plan_chunks_def py_truediv_def max_1_py_int)
qed

lemma plan_chunks_falsy:
  assumes "\<not> truthy_float (arg_chunk_duration a)"
  shows "plan_chunks a =
           (if arg_chunks a = 0 then Inl ZeroDivisionError
            else Inr (arg_chunks a, arg_duration a / of_int (arg_chunks a)))"
  using assms by (simp add: plan_chunks_def py_truediv_def)



subsection \<open>Generating the chunks\<close>








subsection \<open>The style prompts\<close>

text \<open>
  Claim C7. For every style keyword outside the seven known ones, \<^verbatim>\<open>get_style_prompt\<close>
  raises nothing and returns what it returns for \<^verbatim>\<open>"conversational"\<close>.
\<close>

theorem unknown_style_falls_back:
  assumes "style \<notin> {''conversational'', ''narrative'', ''technical'', ''news_anchor'',
                      ''storytelling'', ''educational'', ''podcast''}"
  shows "get_style_prompt style = get_style_prompt ''conversational''
       \<and> (\<exists>fragment. get_style_prompt style = Inr fragment)"
  using assms by (simp add: get_style_prompt_def style_prompts_def)

theorem unknown_style_falls_back_witness:
  "''casual'' \<notin> {''conversational'', ''narrative'', ''technical'', ''news_anchor'',
                    ''storytelling'', ''educational'', ''podcast''}
   \<and> get_style_prompt ''casual'' = get_style_prompt ''conversational''
   \<and> (\<exists>fragment. get_style_prompt ''casual'' = Inr fragment)"
proof -
  have m: "''casual'' \<notin> {''conversational'', ''narrative'', ''technical'', ''news_anchor'',
                    ''storytelling'', ''educational'', ''podcast''}"
    by simp
  from unknown_style_falls_back [OF m] m show ?thesis by blast
qed

subsection \<open>Runs that stop before any output\<close>

lemma plan_chunks_error: "plan_chunks a = Inl e \<Longrightarrow> e = ZeroDivisionError"
  by (auto simp: plan_chunks_def py_truediv_def split: if_splits sum.splits)

lemma plan_chunks_zero_iff:
  "plan_chunks a = Inl ZeroDivisionError
     \<longleftrightarrow> \<not> truthy_float (arg_chunk_duration a) \<and> arg_chunks a = 0"
proof (cases "truthy_float (arg_chunk_duration a)")
  case True
  then obtain cd where "arg_chunk_duration a = Some cd" and "cd \<noteq> 0"
    by (cases "arg_chunk_duration a") auto
  from plan_chunks_truthy [OF this] True show ?thesis by simp
next
  case False
  then show ?thesis by (simp add: plan_chunks_falsy)
qed

lemma generate_text_main_without_key:
  assumes "\<not> truthy_str (gi_api_key inp)"
  shows "\<exists>e w'. generate_text_main inp w = (Inl e, w')
      \<and> (e = ZeroDivisionError \<or> e = SystemExit 1 \<and> (\<exists>ls. ls \<noteq> [] \<and> stdout w' = stdout w @ ls))
      \<and> files w' = files w \<and> dirs w' = dirs w \<and> api_calls w' = api_calls w"
proof (cases "gi_config_file inp")
  case None
  then show ?thesis
    by (simp add: generate_text_main_def load_config_def print_line_def)
next
  case (Some c)
  show ?thesis
  proof (cases "plan_chunks (gi_args inp)")
    case (Inl e)
    then have "e = ZeroDivisionError" by (rule plan_chunks_error)
    with Inl Some show ?thesis
      by (simp add: generate_text_main_def load_config_def Let_def print_line_def)
  next
    case (Inr p)
    obtain n d where "p = (n, d)" by (cases p)
    with Inr Some assms show ?thesis
      by (simp add: generate_text_main_def load_config_def Let_def print_line_def)
  qed
qed

text \<open>
  Claim C8. Without \<^verbatim>\<open>GEMINI_API_KEY\<close> the analyzer prints its two-line message and exits
  with status 1, and the generator ends with a nonzero status, either by \<^verbatim>\<open>sys.exit(1)\<close>
  after a printed message or, for \<^verbatim>\<open>--chunks 0\<close>, by the \<^verbatim>\<open>ZeroDivisionError\<close> that
  precedes the key check (the interpreter then prints the traceback). In both tools no
  file and no directory is created and no remote call is made.
\<close>

theorem missing_api_key_exits:
  assumes "ai_api_key ai = None" and "gi_api_key gi = None"
  shows "calculate_wpm_main ai w =
           (Inl (SystemExit 1),
            w\<lparr>stdout := stdout w @
                 [Line ''Error: GEMINI_API_KEY environment variable not set.'',
                  Line ''Get your API key from: https://aistudio.google.com/apikey'']\<rparr>)
       \<and> (\<exists>e w'. generate_text_main gi w = (Inl e, w')
             \<and> exit_code e \<noteq> 0
             \<and> (e = ZeroDivisionError
                  \<or> e = SystemExit 1 \<and> (\<exists>ls. ls \<noteq> [] \<and> stdout w' = stdout w @ ls))
             \<and> files w' = files w \<and> dirs w' = dirs w \<and> api_calls w' = api_calls w)"
proof -
  have "calculate_wpm_main ai w =
           (Inl (SystemExit 1),
            w\<lparr>stdout := stdout w @
                 [Line ''Error: GEMINI_API_KEY environment variable not set.'',
                  Line ''Get your API key from: https://aistudio.google.com/apikey'']\<rparr>)"
    using assms(1) by (simp add: calculate_wpm_main_def print_line_def)
  moreover obtain e w' where "generate_text_main gi w = (Inl e, w')"
    "e = ZeroDivisionError \<or> e = SystemExit 1 \<and> (\<exists>ls. ls \<noteq> [] \<and> stdout w' = stdout w @ ls)"
    "files w' = files w" "dirs w' = dirs w" "api_calls w' = api_calls w"
    using generate_text_main_without_key [of gi w] assms(2) by auto
  moreover from this(2) have "exit_code e \<noteq> 0" by auto
  ultimately show ?thesis by blast
qed

theorem missing_api_key_exits_witness:
  "ai_api_key (example_analyzer_input\<lparr>ai_api_key := None\<rparr>) = None
   \<and> gi_api_key example_generator_input = None
   \<and> calculate_wpm_main (example_analyzer_input\<lparr>ai_api_key := None\<rparr>) empty_world =
       (Inl (SystemExit 1),
        empty_world\<lparr>stdout :=
          [Line ''Error: GEMINI_API_KEY environment variable not set.'',
           Line ''Get your API key from: https://aistudio.google.com/apikey'']\<rparr>)
   \<and> (\<exists>e w'. generate_text_main example_generator_input empty_world = (Inl e, w')
         \<and> exit_code e \<noteq> 0
         \<and> files w' = Map.empty \<and> dirs w' = {} \<and> api_calls w' = [])"
proof -
  have a: "ai_api_key (example_analyzer_input\<lparr>ai_api_key := None\<rparr>) = None"
    by simp
  have g: "gi_api_key example_generator_input = None"
    by (simp add: example_generator_input_def)
  from missing_api_key_exits [OF a g, of empty_world]
  show ?thesis
    using g by (auto simp: empty_world_def)
qed

text \<open>
  Claim C9. Planning divides by the chunk count without a guard: it raises
  \<^verbatim>\<open>ZeroDivisionError\<close> exactly when \<^verbatim>\<open>--chunk-duration\<close> is absent or zero and
  \<^verbatim>\<open>--chunks\<close> is 0. A run with \<^verbatim>\<open>--chunks 0\<close>, no \<^verbatim>\<open>--chunk-duration\<close> and a
  configuration file ends with that exception before any remote call and before any
  file or directory is created.
\<close>

theorem chunks_zero_divides_by_zero:
  "(plan_chunks a = Inl ZeroDivisionError
      \<longleftrightarrow> \<not> truthy_float (arg_chunk_duration a) \<and> arg_chunks a = 0)
   \<and> (gi_config_file inp = Some c \<and> arg_chunks (gi_args inp) = 0
        \<and> arg_chunk_duration (gi_args inp) = None
      \<longrightarrow> (\<exists>w'. generate_text_main inp w = (Inl ZeroDivisionError, w')
             \<and> files w' = files w \<and> dirs w' = dirs w \<and> api_calls w' = api_calls w))"
proof (intro conjI impI)
  show "plan_chunks a = Inl ZeroDivisionError
      \<longleftrightarrow> \<not> truthy_float (arg_chunk_duration a) \<and> arg_chunks a = 0"
    by (rule plan_chunks_zero_iff)
next
  assume h: "gi_config_file inp = Some c \<and> arg_chunks (gi_args inp) = 0
        \<and> arg_chunk_duration (gi_args inp) = None"
  then have "plan_chunks (gi_args inp) = Inl ZeroDivisionError"
    by (simp add: plan_chunks_zero_iff)
  with h show "\<exists>w'. generate_text_main inp w = (Inl ZeroDivisionError, w')
             \<and> files w' = files w \<and> dirs w' = dirs w \<and> api_calls w' = api_calls w"
    by (simp add: generate_text_main_def load_config_def Let_def print_line_def)
qed

theorem chunks_zero_divides_by_zero_witness:
  "plan_chunks (example_args\<lparr>arg_chunks := 0\<rparr>) = Inl ZeroDivisionError
   \<and> arg_chunks (example_args\<lparr>arg_chunks := 0\<rparr>) = 0
   \<and> arg_chunk_duration (example_args\<lparr>arg_chunks := 0\<rparr>) = None
   \<and> gi_config_file (example_generator_input\<lparr>gi_args := example_args\<lparr>arg_chunks := 0\<rparr>,
                                              gi_api_key := Some ''key''\<rparr>) = Some example_config
   \<and> (\<exists>w'. generate_text_main
               (example_generator_input\<lparr>gi_args := example_args\<lparr>arg_chunks := 0\<rparr>,
                                        gi_api_key := Some ''key''\<rparr>) empty_world
             = (Inl ZeroDivisionError, w')
          \<and> files w' = Map.empty \<and> dirs w' = {} \<and> api_calls w' = [])"
  using chunks_zero_divides_by_zero
    [of "example_args\<lparr>arg_chunks := 0\<rparr>"
        "example_generator_input\<lparr>gi_args := example_args\<lparr>arg_chunks := 0\<rparr>,
                                 gi_api_key := Some ''key''\<rparr>"
        example_config empty_world]
  by (simp add: example_args_def example_generator_input_def empty_world_def)

text \<open>
  Claim C10. A run with \<^verbatim>\<open>--chunk-duration 0.0\<close> is the run without the option: the
  whole program behaves the same, and the chunk count that planning returns is the
  value of \<^verbatim>\<open>--chunks\<close>.
\<close>

theorem zero_chunk_duration_is_ignored:
  "generate_text_main (inp\<lparr>gi_args := (gi_args inp)\<lparr>arg_chunk_duration := Some 0\<rparr>\<rparr>) w
     = generate_text_main (inp\<lparr>gi_args := (gi_args inp)\<lparr>arg_chunk_duration := None\<rparr>\<rparr>) w
   \<and> plan_chunks (a\<lparr>arg_chunk_duration := Some 0\<rparr>) = plan_chunks (a\<lparr>arg_chunk_duration := None\<rparr>)
   \<and> (\<forall>num_chunks chunk_duration.
        plan_chunks (a\<lparr>arg_chunk_duration := Some 0\<rparr>) = Inr (num_chunks, chunk_duration)
          \<longrightarrow> num_chunks = arg_chunks a)"
proof (intro conjI allI impI)
  show p: "plan_chunks (b\<lparr>arg_chunk_duration := Some 0\<rparr>)
             = plan_chunks (b\<lparr>arg_chunk_duration := None\<rparr>)" for b
    by (simp add: plan_chunks_def)
  show "generate_text_main (inp\<lparr>gi_args := (gi_args inp)\<lparr>arg_chunk_duration := Some 0\<rparr>\<rparr>) w
     = generate_text_main (inp\<lparr>gi_args := (gi_args inp)\<lparr>arg_chunk_duration := None\<rparr>\<rparr>) w"
    by (simp add: generate_text_main_def p wpm_used_def style_used_def print_plan_def Let_def
        cong: sum.case_cong prod.case_cong if_cong)
  show "num_chunks = arg_chunks a"
    if "plan_chunks (a\<lparr>arg_chunk_duration := Some 0\<rparr>) = Inr (num_chunks, chunk_duration)"
    for num_chunks chunk_duration
    using that by (auto simp: plan_chunks_def split: sum.splits)
qed

text \<open>
  \<^verbatim>\<open>--duration 10 --chunks 2 --chunk-duration 0.0\<close> plans the two chunks of
  \<^verbatim>\<open>--chunks\<close>, of 5 minutes each.
\<close>

theorem zero_chunk_duration_is_ignored_witness:
  "generate_text_main
     (example_generator_input\<lparr>gi_args :=
        (gi_args example_generator_input)\<lparr>arg_chunk_duration := Some 0\<rparr>\<rparr>) empty_world
     = generate_text_main
         (example_generator_input\<lparr>gi_args :=
            (gi_args example_generator_input)\<lparr>arg_chunk_duration := None\<rparr>\<rparr>) empty_world
   \<and> plan_chunks (example_args\<lparr>arg_chunk_duration := Some 0\<rparr>) = Inr (2, 5)"
proof -
  have "plan_chunks (example_args\<lparr>arg_chunk_duration := None\<rparr>) = Inr (2, 5)"
    by (simp add: plan_chunks_def example_args_def py_truediv_def)
  with zero_chunk_duration_is_ignored [of example_generator_input empty_world example_args]
  show ?thesis by simp
qed

subsection \<open>File names\<close>

lemma digit_value_nth: "d < 10 \<Longrightarrow> digit_value (''0123456789'' ! d) = d"
proof -
  assume "d < 10"
  then have "d \<in> {0, 1, 2, 3, 4, 5, 6, 7, 8, 9}" by auto
  then show ?thesis by (auto simp: digit_value_def)
qed

lemma parse_nat_snoc: "parse_nat (s @ [c]) = 10 * parse_nat s + digit_value c"
  by (simp add: parse_nat_def)

lemma parse_nat_str_nat: "parse_nat (str_nat n) = n"
proof (induction n rule: str_nat.induct)
  case (1 n)
  show ?case
  proof (cases "n < 10")
    case True
    then have "str_nat n = [''0123456789'' ! n]"
      by (simp add: str_nat.simps [of n])
    with True show ?thesis
      by (simp add: digit_value_nth parse_nat_def)
  next
    case False
    then have "str_nat n = str_nat (n div 10) @ [''0123456789'' ! (n mod 10)]"
      by (simp add: str_nat.simps [of n])
    moreover have "parse_nat (str_nat (n div 10)) = n div 10"
      using False "1.IH" by simp
    ultimately show ?thesis
      by (simp add: parse_nat_snoc digit_value_nth)
  qed
qed

lemma parse_nat_zeros: "parse_nat (replicate k CHR ''0'' @ s) = parse_nat s"
proof -
  have "foldl (\<lambda>a c. 10 * a + digit_value c) 0 (replicate k CHR ''0'') = 0"
    by (induction k) (simp_all add: digit_value_def)
  then show ?thesis by (simp add: parse_nat_def)
qed

lemma parse_nat_fmt_02d: "parse_nat (fmt_02d i) = i"
  by (simp only: fmt_02d_def parse_nat_zeros parse_nat_str_nat)

lemma fmt_02d_inj: "fmt_02d i = fmt_02d j \<Longrightarrow> i = j"
  by (metis parse_nat_fmt_02d)

lemma fmt_02d_two_digits:
  assumes "i < 100"
  shows "fmt_02d i = [''0123456789'' ! (i div 10), ''0123456789'' ! (i mod 10)]"
proof (cases "i < 10")
  case True
  then have "str_nat i = [''0123456789'' ! i]"
    by (simp add: str_nat.simps [of i])
  with True show ?thesis by (simp add: fmt_02d_def)
next
  case False
  with assms have "i div 10 < 10" by simp
  then have "str_nat (i div 10) = [''0123456789'' ! (i div 10)]"
    by (simp add: str_nat.simps [of "i div 10"])
  moreover from False have "str_nat i = str_nat (i div 10) @ [''0123456789'' ! (i mod 10)]"
    by (simp add: str_nat.simps [of i])
  ultimately show ?thesis by (simp add: fmt_02d_def)
qed

lemma text_filename_inj:
  "len \<noteq> 1 \<Longrightarrow> text_filename len i = text_filename len j \<Longrightarrow> i = j"
  by (simp add: text_filename_def fmt_02d_inj)

lemma text_filename_not_metadata: "text_filename len i \<noteq> ''metadata.json''"
  by (simp add: text_filename_def)

subsection \<open>Saving the session\<close>

lemma write_file_files:
  "files (write_file p c w) q = (if q = p then Some c else files w q)"
  by (simp add: write_file_def)


lemma mkdir_parents_rest:
  "files (mkdir_parents_exist_ok p w) = files w
   \<and> stdout (mkdir_parents_exist_ok p w) = stdout w
   \<and> api_calls (mkdir_parents_exist_ok p w) = api_calls w"
  by (simp add: mkdir_parents_exist_ok_def)


lemma save_text_eq:
  "save_text d len w e = write_file (d @ [text_filename len (fst e)]) (Text (td_text (snd e))) w"
  by (simp add: save_text_def text_filename_def Let_def)

lemma foldl_save_text_other:
  "p \<notin> (\<lambda>e. d @ [text_filename len (fst e)]) ` set es
     \<Longrightarrow> files (foldl (save_text d len) w es) p = files w p"
proof (induction es arbitrary: w)
  case Nil
  show ?case by simp
next
  case (Cons x xs)
  then have "files (foldl (save_text d len) (save_text d len w x) xs) p
               = files (save_text d len w x) p"
    by simp
  moreover have "files (save_text d len w x) p = files w p"
    using Cons.prems by (simp only: save_text_eq write_file_files) auto
  ultimately show ?case by simp
qed


lemma foldl_save_text_hit:
  "distinct (map (\<lambda>e. text_filename len (fst e)) es) \<Longrightarrow> e \<in> set es
     \<Longrightarrow> files (foldl (save_text d len) w es) (d @ [text_filename len (fst e)])
           = Some (Text (td_text (snd e)))"
proof (induction es arbitrary: w)
  case Nil
  then show ?case by simp
next
  case (Cons x xs)
  show ?case
  proof (cases "e = x")
    case True
    have "d @ [text_filename len (fst x)] \<notin> (\<lambda>e. d @ [text_filename len (fst e)]) ` set xs"
      using Cons.prems(1) by auto
    then have "files (foldl (save_text d len) (save_text d len w x) xs)
                 (d @ [text_filename len (fst x)])
               = files (save_text d len w x) (d @ [text_filename len (fst x)])"
      by (rule foldl_save_text_other)
    moreover have "files (save_text d len w x) (d @ [text_filename len (fst x)])
               = Some (Text (td_text (snd x)))"
      by (simp only: save_text_eq write_file_files) simp
    ultimately show ?thesis using True by simp
  next
    case False
    with Cons.prems have "e \<in> set xs" and "distinct (map (\<lambda>e. text_filename len (fst e)) xs)"
      by auto
    with Cons.IH show ?thesis by simp
  qed
qed

lemma distinct_text_filenames:
  "distinct (map (\<lambda>e. text_filename (length texts) (fst e)) (List.enumerate 1 texts))"
proof -
  have "map (\<lambda>e. text_filename (length texts) (fst e)) (List.enumerate 1 texts)
          = map (text_filename (length texts)) (map fst (List.enumerate 1 texts))"
    by (simp only: map_map comp_def)
  also have "\<dots> = map (text_filename (length texts)) [1 ..< 1 + length texts]"
    by (simp only: map_fst_enumerate)
  finally have eq: "map (\<lambda>e. text_filename (length texts) (fst e)) (List.enumerate 1 texts)
          = map (text_filename (length texts)) [1 ..< 1 + length texts]" .
  have "distinct (map (text_filename (length texts)) [1 ..< 1 + length texts])"
  proof (cases "length texts = 1")
    case True
    then show ?thesis by simp
  next
    case False
    have "inj_on (text_filename (length texts)) (set [1 ..< 1 + length texts])"
      by (rule inj_onI) (rule text_filename_inj [OF False])
    then show ?thesis by (simp add: distinct_map)
  qed
  with eq show ?thesis by simp
qed

lemma save_texts_hit:
  assumes "i < length texts"
  shows "files (save_texts d texts w) (d @ [text_filename (length texts) (Suc i)])
           = Some (Text (td_text (texts ! i)))"
proof -
  have "(Suc i, texts ! i) \<in> set (List.enumerate 1 texts)"
    using assms by (simp add: in_set_enumerate_eq)
  from foldl_save_text_hit [OF distinct_text_filenames this]
  show ?thesis by (simp add: save_texts_def)
qed

lemma save_texts_other:
  assumes "\<forall>i<length texts. p \<noteq> d @ [text_filename (length texts) (Suc i)]"
  shows "files (save_texts d texts w) p = files w p"
proof -
  have "p \<notin> (\<lambda>e. d @ [text_filename (length texts) (fst e)]) ` set (List.enumerate 1 texts)"
  proof
    assume "p \<in> (\<lambda>e. d @ [text_filename (length texts) (fst e)]) ` set (List.enumerate 1 texts)"
    then obtain e where e: "e \<in> set (List.enumerate 1 texts)"
      and p: "p = d @ [text_filename (length texts) (fst e)]"
      by blast
    from e have "1 \<le> fst e" and "fst e < length texts + 1"
      by (simp_all add: in_set_enumerate_eq)
    then obtain i where "fst e = Suc i" and "i < length texts"
      by (cases "fst e") auto
    with p assms show False by simp
  qed
  then show ?thesis
    unfolding save_texts_def by (rule foldl_save_text_other)
qed




text \<open>
  The world after \<^verbatim>\<open>save_output\<close>, with \<open>sd\<close> for the session directory: the directory
  is made, the texts are written, then the metadata unless building it raised.
\<close>

lemma save_output_world:
  assumes "sd = out @ [''session_'' @ ts]"
  shows "snd (save_output ts ga out texts style duration wpm w) =
     (case metadata ga texts style duration wpm of
        Inl e \<Rightarrow> save_texts sd texts (mkdir_parents_exist_ok sd w)
      | Inr md \<Rightarrow> write_file (sd @ [''metadata.json'']) (Json md)
                    (save_texts sd texts (mkdir_parents_exist_ok sd w)))"
  unfolding assms by (simp add: save_output_def Let_def split: sum.splits)


lemma save_output_text:
  assumes "sd = out @ [''session_'' @ ts]" and "i < length texts"
  shows "files (snd (save_output ts ga out texts style duration wpm w))
           (sd @ [text_filename (length texts) (Suc i)])
         = Some (Text (td_text (texts ! i)))"
proof -
  have "files (save_texts sd texts (mkdir_parents_exist_ok sd w))
          (sd @ [text_filename (length texts) (Suc i)]) = Some (Text (td_text (texts ! i)))"
    using assms(2) by (rule save_texts_hit)
  then show ?thesis
    by (simp add: save_output_world [OF assms(1)] write_file_files text_filename_not_metadata
        split: sum.splits)
qed


lemma save_output_other:
  assumes "sd = out @ [''session_'' @ ts]"
    and "p \<noteq> sd @ [''metadata.json'']"
    and "\<forall>i<length texts. p \<noteq> sd @ [text_filename (length texts) (Suc i)]"
  shows "files (snd (save_output ts ga out texts style duration wpm w)) p = files w p"
proof -
  have "files (save_texts sd texts (mkdir_parents_exist_ok sd w)) p
          = files (mkdir_parents_exist_ok sd w) p"
    using assms(3) by (rule save_texts_other)
  then have "files (save_texts sd texts (mkdir_parents_exist_ok sd w)) p = files w p"
    by (simp add: mkdir_parents_rest)
  then show ?thesis
    using assms(2)
    by (simp add: save_output_world [OF assms(1)] write_file_files split: sum.splits)
qed



lemma fmt_02d_1: "fmt_02d (Suc 0) = ''01''"
  by (simp add: fmt_02d_def str_nat.simps)

lemma fmt_02d_2: "fmt_02d (Suc (Suc 0)) = ''02''"
  by (simp add: fmt_02d_def str_nat.simps)

text \<open>
  Claim C6. For a non-empty list of texts, \<^verbatim>\<open>save_output\<close> leaves the only text in
  \<^verbatim>\<open>script.txt\<close>, or text number \<open>i\<close> (counted from 1, in list order) in
  \<^verbatim>\<open>chunk_\<close>\<open>NN\<close>\<^verbatim>\<open>.txt\<close> where \<open>NN\<close> is \<open>i\<close> filled with zeros to two digits; besides
  \<^verbatim>\<open>metadata.json\<close> it changes no other file. Up to 99 the number is exactly two digits,
  the tens and the ones.
\<close>

theorem save_output_file_names:
  assumes "texts \<noteq> []"
  shows "(length texts = 1 \<longrightarrow>
            files (snd (save_output ts ga out texts style duration wpm w))
              (out @ [''session_'' @ ts, ''script.txt''])
            = Some (Text (td_text (texts ! 0))))
       \<and> (1 < length texts \<longrightarrow>
            (\<forall>i<length texts.
               files (snd (save_output ts ga out texts style duration wpm w))
                 (out @ [''session_'' @ ts, ''chunk_'' @ fmt_02d (Suc i) @ ''.txt''])
               = Some (Text (td_text (texts ! i)))))
       \<and> (\<forall>p. files (snd (save_output ts ga out texts style duration wpm w)) p \<noteq> files w p \<longrightarrow>
              p = out @ [''session_'' @ ts, ''metadata.json'']
            \<or> (length texts = 1 \<and> p = out @ [''session_'' @ ts, ''script.txt''])
            \<or> (1 < length texts
                \<and> (\<exists>i<length texts.
                      p = out @ [''session_'' @ ts, ''chunk_'' @ fmt_02d (Suc i) @ ''.txt''])))
       \<and> (\<forall>i<99. fmt_02d (Suc i)
                    = [''0123456789'' ! (Suc i div 10), ''0123456789'' ! (Suc i mod 10)])"
proof (intro conjI impI allI)
  let ?sd = "out @ [''session_'' @ ts]"
  let ?W = "snd (save_output ts ga out texts style duration wpm w)"
  have sd: "?sd = out @ [''session_'' @ ts]" by simp
  show "files ?W (out @ [''session_'' @ ts, ''script.txt'']) = Some (Text (td_text (texts ! 0)))"
    if "length texts = 1"
    using save_output_text [OF sd, of 0 texts ga style duration wpm w] that
    by (simp add: text_filename_def)
  show "files ?W (out @ [''session_'' @ ts, ''chunk_'' @ fmt_02d (Suc i) @ ''.txt''])
          = Some (Text (td_text (texts ! i)))"
    if "1 < length texts" and "i < length texts" for i
    using save_output_text [OF sd that(2), of ga style duration wpm w] that(1)
    by (simp add: text_filename_def)
  show "p = out @ [''session_'' @ ts, ''metadata.json'']
      \<or> (length texts = 1 \<and> p = out @ [''session_'' @ ts, ''script.txt''])
      \<or> (1 < length texts
          \<and> (\<exists>i<length texts.
                p = out @ [''session_'' @ ts, ''chunk_'' @ fmt_02d (Suc i) @ ''.txt'']))"
    if changed: "files ?W p \<noteq> files w p" for p
  proof (rule ccontr)
    assume other: "\<not> ?thesis"
    then have "p \<noteq> ?sd @ [''metadata.json'']" by simp
    moreover have "\<forall>i<length texts. p \<noteq> ?sd @ [text_filename (length texts) (Suc i)]"
    proof (intro allI impI)
      fix i assume i: "i < length texts"
      show "p \<noteq> ?sd @ [text_filename (length texts) (Suc i)]"
      proof (cases "length texts = 1")
        case True
        with other show ?thesis by (simp add: text_filename_def)
      next
        case False
        with assms have "1 < length texts" by (cases texts) auto
        with other i False show ?thesis by (auto simp: text_filename_def)
      qed
    qed
    ultimately have "files ?W p = files w p"
      by (rule save_output_other [OF sd])
    with changed show False by simp
  qed
  show "fmt_02d (Suc i) = [''0123456789'' ! (Suc i div 10), ''0123456789'' ! (Suc i mod 10)]"
    if "i < 99" for i
    using that by (intro fmt_02d_two_digits) simp
qed

text \<open>Two texts go to \<^verbatim>\<open>chunk_01.txt\<close> and \<^verbatim>\<open>chunk_02.txt\<close>; one text goes to \<^verbatim>\<open>script.txt\<close>.\<close>

theorem save_output_file_names_witness:
  "example_two_texts \<noteq> [] \<and> example_texts \<noteq> []
   \<and> files (snd (save_output ''20260101_120000'' ''2026-01-01T12:00:00'' [''repo'', ''output'']
                   example_two_texts ''conversational'' 10 150 empty_world))
        [''repo'', ''output'', ''session_20260101_120000'', ''chunk_01.txt'']
      = Some (Text ''first part'')
   \<and> files (snd (save_output ''20260101_120000'' ''2026-01-01T12:00:00'' [''repo'', ''output'']
                   example_two_texts ''conversational'' 10 150 empty_world))
        [''repo'', ''output'', ''session_20260101_120000'', ''chunk_02.txt'']
      = Some (Text ''second part'')
   \<and> files (snd (save_output ''20260101_120000'' ''2026-01-01T12:00:00'' [''repo'', ''output'']
                   example_texts ''conversational'' 10 150 empty_world))
        [''repo'', ''output'', ''session_20260101_120000'', ''script.txt'']
      = Some (Text ''the new take'')"
proof -
  have two: "example_two_texts \<noteq> []" and len2: "length example_two_texts = 2"
    by (simp_all add: example_two_texts_def)
  have one: "example_texts \<noteq> []" and len1: "length example_texts = 1"
    by (simp_all add: example_texts_def)
  note a = save_output_file_names [OF two, of "''20260101_120000''" "''2026-01-01T12:00:00''"
      "[''repo'', ''output'']" "''conversational''" 10 150 empty_world,
      THEN conjunct2, THEN conjunct1, rule_format]
  note b = save_output_file_names [OF one, of "''20260101_120000''" "''2026-01-01T12:00:00''"
      "[''repo'', ''output'']" "''conversational''" 10 150 empty_world,
      THEN conjunct1, rule_format]
  have "files (snd (save_output ''20260101_120000'' ''2026-01-01T12:00:00''
                          [''repo'', ''output''] example_two_texts ''conversational'' 10 150
                          empty_world))
              ([''repo'', ''output''] @
                 [''session_'' @ ''20260101_120000'', ''chunk_'' @ fmt_02d (Suc 0) @ ''.txt''])
            = Some (Text (td_text (example_two_texts ! 0)))"
    by (rule a) (simp_all add: len2)
  then have c1: "files (snd (save_output ''20260101_120000'' ''2026-01-01T12:00:00''
                   [''repo'', ''output''] example_two_texts ''conversational'' 10 150 empty_world))
        [''repo'', ''output'', ''session_20260101_120000'', ''chunk_01.txt'']
      = Some (Text ''first part'')"
    by (simp add: fmt_02d_1 example_two_texts_def)
  have "files (snd (save_output ''20260101_120000'' ''2026-01-01T12:00:00''
                          [''repo'', ''output''] example_two_texts ''conversational'' 10 150
                          empty_world))
              ([''repo'', ''output''] @
                 [''session_'' @ ''20260101_120000'',
                  ''chunk_'' @ fmt_02d (Suc (Suc 0)) @ ''.txt''])
            = Some (Text (td_text (example_two_texts ! Suc 0)))"
    by (rule a) (simp_all add: len2)
  then have c2: "files (snd (save_output ''20260101_120000'' ''2026-01-01T12:00:00''
                   [''repo'', ''output''] example_two_texts ''conversational'' 10 150 empty_world))
        [''repo'', ''output'', ''session_20260101_120000'', ''chunk_02.txt'']
      = Some (Text ''second part'')"
    by (simp add: fmt_02d_2 example_two_texts_def)
  have "files (snd (save_output ''20260101_120000'' ''2026-01-01T12:00:00''
                          [''repo'', ''output''] example_texts ''conversational'' 10 150
                          empty_world))
              ([''repo'', ''output''] @ [''session_'' @ ''20260101_120000'', ''script.txt''])
            = Some (Text (td_text (example_texts ! 0)))"
    by (rule b) (simp add: len1)
  then have c3: "files (snd (save_output ''20260101_120000'' ''2026-01-01T12:00:00''
                   [''repo'', ''output''] example_texts ''conversational'' 10 150 empty_world))
        [''repo'', ''output'', ''session_20260101_120000'', ''script.txt'']
      = Some (Text ''the new take'')"
    by (simp add: example_texts_def)
  from two one c1 c2 c3 show ?thesis by simp
qed




end
